theory Spec2Isabelle
  imports Main
begin

section \<open>The syntax analyser of LispEx (parser/parser.go)\<close>

text \<open>
  The analyser turns a raw tree of atoms and lists into an abstract syntax tree. In the Go
  source both trees are values of the one interface type \<^verbatim>\<open>ast.Node\<close>: \<^verbatim>\<open>ParseNode\<close> hands a
  non-list node back unchanged, and the quasiquote scanner builds lists that hold analysed
  nodes beside raw ones. The embedding therefore has a single type \<open>node\<close>.
\<close>

subsection \<open>Nodes\<close>

text \<open>
  Modelled from the spec: the package \<^verbatim>\<open>ast\<close> is not among the sources; the constructors
  below are the ones parser.go calls (\<^verbatim>\<open>ast.NewDefine\<close>, \<^verbatim>\<open>ast.NewLambda\<close>, ...) with the fields
  that section 3 of the specification lists. A field of Go type \<^verbatim>\<open>*ast.Name\<close> is kept as the
  identifier string. \<open>Tuple\<close> is the raw list node (\<^verbatim>\<open>ast.Tuple\<close> and its \<^verbatim>\<open>Elements\<close>), \<open>Lit\<close>
  a literal scalar. Constructors whose names are taken in HOL carry the suffix \<open>_node\<close>.
  The absent else-branch of \<^verbatim>\<open>ast.NewIf(test, then, nil)\<close> is \<open>None\<close>.
\<close>

datatype scalar = Number int | Text string | Boolean bool

datatype node =
    Name string
  | Lit scalar
  | Tuple "node list"
  | Block "node list"
  | Begin node
  | Define string node
  | Function (Caller: string) (Body: node)
  | Lambda node node
  | Call node "node list"
  | Apply node "node list"
  | If_node node node "node option"
  | Set_node string node
  | Let_node "string list" "node list" node
  | LetStar "string list" "node list" node
  | LetRec "string list" "node list" node
  | Go node
  | Select "node list list"
  | Quote node
  | Quasiquote node
  | Unquote node
  | UnquoteSplicing node
  | Delay node
  | Force node
  | Pair_node node node
  | NilPair

subsection \<open>Panics and stores\<close>

text \<open>
  Every \<^verbatim>\<open>panic(...)\<close> of the source is a \<open>SyntaxError\<close> carrying the fixed text of its
  message (the format string for \<^verbatim>\<open>Sprintf\<close>, the leading literal for \<^verbatim>\<open>Sprint\<close>; the printed
  operand is left out, since the \<^verbatim>\<open>String\<close> methods live in the absent package \<^verbatim>\<open>ast\<close>).
  A panic raised by the Go runtime itself (slicing or indexing out of range, a nil
  dereference) is a \<open>RuntimePanic\<close>.
\<close>

datatype error = SyntaxError string | RuntimePanic string

text \<open>
  The source assigns to \<^verbatim>\<open>elements[1]\<close> of a list node it was given (in \<^verbatim>\<open>ParseQuasiquote\<close>,
  \<^verbatim>\<open>ParseUnquote\<close> and \<^verbatim>\<open>ParseUnquoteSplicing\<close>) and then returns that same node. The raw input
  is a tree (the reader shares no list between two parents), and no list is read again after
  it was written, so the value returned is the list with the slot replaced. The write
  itself is recorded: \<open>Store es i v\<close> says that the element array which held \<open>es\<close> when the
  parslet was entered had \<open>v\<close> stored at index \<open>i\<close>. A result is the sequence of stores
  performed, in order, together with the panic or the value; stores done before a panic
  stay done.
\<close>

datatype store = Store "node list" nat node

type_synonym 'a res = "store list \<times> (error + 'a)"

definition ret :: "'a \<Rightarrow> 'a res" where
  "ret x = ([], Inr x)"

definition panic :: "error \<Rightarrow> 'a res" where
  "panic e = ([], Inl e)"

definition store_elem :: "node list \<Rightarrow> nat \<Rightarrow> node \<Rightarrow> unit res" where
  "store_elem es i v = ([Store es i v], Inr ())"

definition bind_res :: "'a res \<Rightarrow> ('a \<Rightarrow> 'b res) \<Rightarrow> 'b res" where
  "bind_res m f = (case m of
       (w, Inl e) \<Rightarrow> (w, Inl e)
     | (w, Inr x) \<Rightarrow> (case f x of (w', r) \<Rightarrow> (w @ w', r)))"

subsection \<open>Keywords\<close>

text \<open>
  Modelled from the spec: the package \<^verbatim>\<open>constants\<close> is not among the sources. The
  identifiers are the ones the specification writes for each form (sections 2, 4.6 and 8);
  the Go \<^verbatim>\<open>switch\<close> in \<^verbatim>\<open>ParseNode\<close> only compiles when its case constants are distinct.
\<close>

definition DEFINE :: string where "DEFINE = ''define''"
definition BEGIN :: string where "BEGIN = ''begin''"
definition LAMBDA :: string where "LAMBDA = ''lambda''"
definition LET :: string where "LET = ''let''"
definition LET_STAR :: string where "LET_STAR = ''let*''"
definition LET_REC :: string where "LET_REC = ''letrec''"
definition GO :: string where "GO = ''go''"
definition SELECT :: string where "SELECT = ''select''"
definition IF :: string where "IF = ''if''"
definition SET :: string where "SET = ''set!''"
definition APPLY :: string where "APPLY = ''apply''"
definition QUOTE :: string where "QUOTE = ''quote''"
definition QUASIQUOTE :: string where "QUASIQUOTE = ''quasiquote''"
definition UNQUOTE :: string where "UNQUOTE = ''unquote''"
definition UNQUOTE_SPLICING :: string where "UNQUOTE_SPLICING = ''unquote-splicing''"
definition DELAY :: string where "DELAY = ''delay''"
definition FORCE :: string where "FORCE = ''force''"
definition CHAN_SEND :: string where "CHAN_SEND = ''chan-send''"
definition CHAN_RECV :: string where "CHAN_RECV = ''chan-recv''"
definition DEFAULT :: string where "DEFAULT = ''default''"

subsection \<open>List-literal and formal-list expanders\<close>

text \<open>
  Modelled from the spec: \<^verbatim>\<open>ExpandList\<close> is defined in a file of package \<^verbatim>\<open>parser\<close> that is
  not among the sources. Section 4.7: a raw list datum becomes an explicit pair-chain
  terminated by an empty-list marker, recursively for nested lists, atoms unchanged.
\<close>

fun ExpandList :: "node list \<Rightarrow> node" where
  "ExpandList [] = NilPair"
| "ExpandList (Tuple es # rest) = Pair_node (ExpandList es) (ExpandList rest)"
| "ExpandList (n # rest) = Pair_node n (ExpandList rest)"

text \<open>
  Modelled from the spec: \<^verbatim>\<open>ExpandFormals\<close> is defined in a file of package \<^verbatim>\<open>parser\<close> that
  is not among the sources. Section 4.2: a flat sequence of identifiers yields fixed
  parameters; a sequence ending in a dotted tail identifier yields the fixed parameters
  and the rest parameter as the tail of the chain; \<^verbatim>\<open>(. x)\<close> yields the bare rest name,
  which \<^verbatim>\<open>ParseLambda\<close> rejects.
\<close>

fun ExpandFormals :: "node list \<Rightarrow> node" where
  "ExpandFormals [] = NilPair"
| "ExpandFormals [Name d, r] = (if d = ''.'' then r else Pair_node (Name d) (Pair_node r NilPair))"
| "ExpandFormals (n # rest) = Pair_node n (ExpandFormals rest)"

subsection \<open>Sizes, for the termination proofs\<close>

lemma size_drop: "size_list size (drop k es) \<le> size_list (size :: node \<Rightarrow> nat) es"
proof (induction es arbitrary: k)
  case Nil
  show ?case by simp
next
  case (Cons a es)
  show ?case
  proof (cases k)
    case 0
    then show ?thesis by simp
  next
    case (Suc j)
    from Cons.IH [of j] Suc show ?thesis by simp
  qed
qed

definition weight_node :: "node \<Rightarrow> nat" where
  "weight_node node = 3 * size node"

definition weight :: "nat \<Rightarrow> node list \<Rightarrow> nat" where
  "weight k elements = 3 * size_list size elements + k"

definition weight_level :: "nat \<Rightarrow> node list \<times> int \<Rightarrow> nat" where
  "weight_level k p = weight k (fst p)"

lemma size_nth_less: "i < length es \<Longrightarrow> size (es ! i) < size_list size es"
proof (induction es arbitrary: i)
  case Nil
  then show ?case by simp
next
  case (Cons a es)
  show ?case
  proof (cases i)
    case 0
    then show ?thesis by simp
  next
    case (Suc j)
    with Cons.prems have "j < length es" by simp
    from Cons.IH [OF this] Suc show ?thesis by simp
  qed
qed

lemma weight_Tuple: "k < 3 \<Longrightarrow> weight k es < weight_node (Tuple es)"
  by (simp add: weight_def weight_node_def)

lemma weight_nth: "i < length es \<Longrightarrow> weight_node (es ! i) < weight k es"
  using size_nth_less [of i es] by (simp add: weight_def weight_node_def)

lemma weight_drop: "k < k' \<Longrightarrow> weight k (drop j es) < weight k' es"
  using size_drop [of j es] by (simp add: weight_def)

lemma weight_nth_Tuple:
  "es ! i = Tuple t \<Longrightarrow> i < length es \<Longrightarrow> k < 6 \<Longrightarrow> weight k t < weight k' es"
  using size_nth_less [of i es] by (simp add: weight_def)

lemma weight_Cons_node: "weight_node x < weight k (x # xs)"
  by (simp add: weight_def weight_node_def)

lemma weight_Cons_tail: "k \<le> k' \<Longrightarrow> weight k xs < weight k' (x # xs)"
  by (simp add: weight_def)

lemma weight_Cons_Tuple: "k < 6 \<Longrightarrow> weight k t < weight k' (Tuple t # rest)"
  by (simp add: weight_def)

lemma weight_Cons_Tuple_nth: "i < length t \<Longrightarrow> weight_node (t ! i) < weight k (Tuple t # rest)"
  using size_nth_less [of i t] by (simp add: weight_def weight_node_def)

lemma weight_same: "k < k' \<Longrightarrow> weight k es < weight k' es"
  by (simp add: weight_def)

lemmas weight_simps = weight_same weight_Tuple weight_nth weight_drop weight_Cons_node weight_Cons_tail
  weight_Cons_Tuple weight_Cons_Tuple_nth

subsection \<open>The curried-define builder\<close>

text \<open>
  \<^verbatim>\<open>ParseFunction\<close> runs a \<^verbatim>\<open>for\<close> loop over the target pattern. Its local \<^verbatim>\<open>lambda\<close> is built
  by \<^verbatim>\<open>ast.NewLambda(nil, body)\<close> and receives its \<^verbatim>\<open>Params\<close> at the start of the next
  iteration; the loop state is the pattern still to unwrap and the body of that lambda.
  Slicing \<^verbatim>\<open>elements[1:]\<close> of an empty pattern is a runtime panic.
\<close>

function ParseFunction_loop :: "node list \<Rightarrow> node \<Rightarrow> node res" where
  "ParseFunction_loop elements body =
     (if length elements < 1 then panic (RuntimePanic ''slice bounds out of range'')
      else let lambda = Lambda (ExpandFormals (drop 1 elements)) body in
        (case elements ! 0 of
           Name name \<Rightarrow> ret (Function name lambda)
         | Tuple tuple \<Rightarrow> ParseFunction_loop tuple lambda
         | _ \<Rightarrow> panic (SyntaxError ''unsupported parser type '')))"
  by pat_completeness auto
termination
proof (relation "measure (\<lambda>(elements, body). size_list size elements)")
  show "wf (measure (\<lambda>(elements, body). size_list size elements))" by simp
next
  fix elements :: "node list" and body x :: node and x3 :: "node list"
  assume "\<not> length elements < 1" and "elements ! 0 = Tuple x3"
  then have "size (Tuple x3) < size_list size elements"
    using size_nth_less [of 0 elements] by simp
  then show "((x3, x), elements, body) \<in> measure (\<lambda>(elements, body). size_list size elements)"
    by simp
qed

definition ParseFunction :: "node list \<Rightarrow> node \<Rightarrow> node res" where
  "ParseFunction tuple tail = ParseFunction_loop tuple tail"

subsection \<open>Parslets without recursion\<close>

definition ParseQuote :: "node list \<Rightarrow> node res" where
  "ParseQuote elements =
     (if length elements \<noteq> 2 then panic (SyntaxError ''quote: wrong number of parts'')
      else (case elements ! 1 of
              Tuple slice \<Rightarrow> ret (Quote (ExpandList slice))
            | _ \<Rightarrow> ret (Quote (elements ! 1))))"

text \<open>
  The test \<^verbatim>\<open>ParseSelect\<close> applies to the first analysed element of a clause: \<open>ret ()\<close> is
  the source's \<^verbatim>\<open>continue\<close>, a panic is one of its three panics (both arity messages are
  formatted with \<^verbatim>\<open>constants.CHAN_SEND\<close> in the source).
\<close>

definition ParseSelect_case :: "node \<Rightarrow> unit res" where
  "ParseSelect_case first =
     (case first of
        Call callee args \<Rightarrow>
          (case callee of
             Name ident \<Rightarrow>
               if ident = CHAN_SEND then
                 (if length args \<noteq> 2 then panic (SyntaxError ''%s: arguments mismatch, expected 2'')
                  else ret ())
               else if ident = CHAN_RECV then
                 (if length args \<noteq> 1 then panic (SyntaxError ''%s: arguments mismatch, expected 1'')
                  else ret ())
               else panic (SyntaxError ''select: bad syntax, given: '')
           | _ \<Rightarrow> panic (SyntaxError ''select: bad syntax, given: ''))
      | Name ident \<Rightarrow>
          if ident = DEFAULT then ret ()
          else panic (SyntaxError ''select: bad syntax, given: '')
      | _ \<Rightarrow> panic (SyntaxError ''select: bad syntax, given: ''))"



subsection \<open>The dispatcher and the recursive parslets\<close>

text \<open>
  A parslet takes the \<^verbatim>\<open>Elements\<close> of the list node it is given. The loops of
  \<^verbatim>\<open>ParseSelect\<close>, \<^verbatim>\<open>ParseLetFamily\<close> and \<^verbatim>\<open>ParseNestedQuasiquote\<close> are the functions with the
  suffix \<open>_loop\<close>. The nesting level is a Go \<^verbatim>\<open>int\<close>; it never exceeds the depth of the input
  by more than one, so it is an unbounded \<open>int\<close> here. The message of \<^verbatim>\<open>ParseLambda\<close> for
  a misplaced dot is written without the quotation marks that surround the dot in the
  source. The entry points \<^verbatim>\<open>Parse\<close> and \<^verbatim>\<open>ParseFromString\<close> run the reader first and then
  \<open>ParseList\<close>; the reader is outside the analyser.
\<close>

definition ParseNode_measure ::
  "(((node + node list) + node list + node list + node list) +
    (node list + node list) + node list + node list + node list \<times> int) +
   ((node list \<times> int + node list \<times> int) + node list \<times> int + node list \<times> int + node list) +
   (node list + node list + node list) + node list + node list + node list \<Rightarrow> nat" where
  "ParseNode_measure =
     case_sum
       (case_sum
         (case_sum (case_sum weight_node (weight 1))
                   (case_sum (weight 2) (case_sum (weight 2) (weight 2))))
         (case_sum (case_sum (weight 2) (weight 1))
                   (case_sum (weight 2) (case_sum (weight 1) (weight_level 1)))))
       (case_sum
         (case_sum (case_sum (weight_level 2) (weight_level 1))
                   (case_sum (weight_level 1) (case_sum (weight_level 1) (weight 2))))
         (case_sum (case_sum (weight 2) (case_sum (weight 2) (weight 2)))
                   (case_sum (weight 2) (case_sum (weight 2) (weight 2)))))"

function ParseNode :: "node \<Rightarrow> node res"
  and ParseList :: "node list \<Rightarrow> node list res"
  and ParseBegin :: "node list \<Rightarrow> node res"
  and ParseGo :: "node list \<Rightarrow> node res"
  and ParseApply :: "node list \<Rightarrow> node res"
  and ParseSelect :: "node list \<Rightarrow> node res"
  and ParseSelect_loop :: "node list \<Rightarrow> node list list res"
  and ParseLetFamily :: "node list \<Rightarrow> node res"
  and ParseLetFamily_loop :: "node list \<Rightarrow> (string list \<times> node list) res"
  and ParseQuasiquote :: "node list \<Rightarrow> int \<Rightarrow> node res"
  and ParseNestedQuasiquote :: "node list \<Rightarrow> int \<Rightarrow> node res"
  and ParseNestedQuasiquote_loop :: "node list \<Rightarrow> int \<Rightarrow> node list res"
  and ParseUnquote :: "node list \<Rightarrow> int \<Rightarrow> node res"
  and ParseUnquoteSplicing :: "node list \<Rightarrow> int \<Rightarrow> node res"
  and ParseDefine :: "node list \<Rightarrow> node res"
  and ParseCall :: "node list \<Rightarrow> node res"
  and ParseLambda :: "node list \<Rightarrow> node res"
  and ParseIf :: "node list \<Rightarrow> node res"
  and ParseSet :: "node list \<Rightarrow> node res"
  and ParseDelay :: "node list \<Rightarrow> node res"
  and ParseForce :: "node list \<Rightarrow> node res"
where
  "ParseNode node =
     (case node of
        Tuple elements \<Rightarrow>
          if length elements = 0 then panic (SyntaxError ''syntax error, empty list'')
          else (case elements ! 0 of
                  Name name \<Rightarrow>
                    if name = DEFINE then ParseDefine elements
                    else if name = BEGIN then ParseBegin elements
                    else if name = LAMBDA then ParseLambda elements
                    else if name = LET \<or> name = LET_STAR \<or> name = LET_REC then ParseLetFamily elements
                    else if name = GO then ParseGo elements
                    else if name = SELECT then ParseSelect elements
                    else if name = IF then ParseIf elements
                    else if name = SET then ParseSet elements
                    else if name = APPLY then ParseApply elements
                    else if name = QUOTE then ParseQuote elements
                    else if name = QUASIQUOTE then ParseQuasiquote elements 1
                    else if name = UNQUOTE then panic (SyntaxError ''unquote: not in quasiquote'')
                    else if name = UNQUOTE_SPLICING then
                      panic (SyntaxError ''unquote-splicing: not in quasiquote'')
                    else if name = DELAY then ParseDelay elements
                    else if name = FORCE then ParseForce elements
                    else ParseCall elements
                | Tuple _ \<Rightarrow> ParseCall elements
                | _ \<Rightarrow> panic (SyntaxError ''%s: not a procedure''))
      | _ \<Rightarrow> ret node)"
| "ParseList nodes =
     (case nodes of
        [] \<Rightarrow> ret []
      | node # rest \<Rightarrow>
          bind_res (ParseNode node) (\<lambda>p.
          bind_res (ParseList rest) (\<lambda>parsed. ret (p # parsed))))"
| "ParseBegin elements =
     (if length elements < 1 then panic (RuntimePanic ''slice bounds out of range'')
      else bind_res (ParseList (drop 1 elements)) (\<lambda>exprs. ret (Begin (Block exprs))))"
| "ParseGo elements =
     (if length elements \<noteq> 2 then
        panic (SyntaxError ''go: bad syntax, only expected 1 expression'')
      else bind_res (ParseNode (elements ! 1)) (\<lambda>expr. ret (Go expr)))"
| "ParseApply elements =
     (if length elements < 3 then
        panic (SyntaxError ''apply: bad syntax (missing expressions), expected at least 3'')
      else bind_res (ParseNode (elements ! 1)) (\<lambda>proc.
           bind_res (ParseList (drop 2 elements)) (\<lambda>args. ret (Apply proc args))))"
| "ParseSelect elements =
     (if length elements < 2 then
        panic (SyntaxError ''select: bad syntax (missing clauses), expected at least 1'')
      else bind_res (ParseSelect_loop (drop 1 elements)) (\<lambda>clauses. ret (Select clauses)))"
| "ParseSelect_loop elements =
     (case elements of
        [] \<Rightarrow> ret []
      | clause # rest \<Rightarrow>
          (case clause of
             Tuple exprs \<Rightarrow>
               if length exprs = 0 then
                 panic (SyntaxError ''select: bad syntax (missing select cases), given: ()'')
               else
                 bind_res (ParseList exprs) (\<lambda>parsed.
                 bind_res (case parsed of
                             [] \<Rightarrow> panic (RuntimePanic ''index out of range'')
                           | first # _ \<Rightarrow> ParseSelect_case first) (\<lambda>_.
                 bind_res (ParseSelect_loop rest) (\<lambda>clauses. ret (parsed # clauses))))
           | _ \<Rightarrow> panic (SyntaxError ''select: bad syntax, given: '')))"
| "ParseLetFamily elements =
     (if length elements < 3 then
        (if length elements = 0 then panic (RuntimePanic ''index out of range'')
         else panic (SyntaxError ''%s: bad syntax, no expression in body''))
      else (case elements ! 1 of
              Tuple bindings \<Rightarrow>
                bind_res (ParseLetFamily_loop bindings) (\<lambda>(patterns, exprs).
                bind_res (ParseList (drop 2 elements)) (\<lambda>body.
                  (case elements ! 0 of
                     Name name \<Rightarrow>
                       if name = LET then ret (Let_node patterns exprs (Block body))
                       else if name = LET_STAR then ret (LetStar patterns exprs (Block body))
                       else if name = LET_REC then ret (LetRec patterns exprs (Block body))
                       else panic (SyntaxError ''%s: should not be here'')
                   | _ \<Rightarrow> panic (RuntimePanic ''nil pointer dereference''))))
            | _ \<Rightarrow> panic (SyntaxError ''%s: bad syntax, expected bindings, given: %s'')))"
| "ParseLetFamily_loop bindings =
     (case bindings of
        [] \<Rightarrow> ret ([], [])
      | binding # rest \<Rightarrow>
          (case binding of
             Tuple tuple \<Rightarrow>
               if length tuple = 2 then
                 (case tuple ! 0 of
                    Name name \<Rightarrow>
                      bind_res (ParseNode (tuple ! 1)) (\<lambda>expr.
                      bind_res (ParseLetFamily_loop rest) (\<lambda>(patterns, exprs).
                        ret (name # patterns, expr # exprs)))
                  | _ \<Rightarrow> panic (SyntaxError
                      ''%s: bad syntax, not an identifer and expression for a binding %s''))
               else panic (SyntaxError
                      ''%s: bad syntax, not an identifer and expression for a binding %s'')
           | _ \<Rightarrow> panic (SyntaxError
                      ''%s: bad syntax, not an identifer and expression for a binding %s'')))"
| "ParseQuasiquote elements level =
     (if length elements \<noteq> 2 then panic (SyntaxError ''quasiquote: wrong number of parts'')
      else (case elements ! 1 of
              Tuple template \<Rightarrow>
                bind_res (ParseNestedQuasiquote template level) (\<lambda>node.
                  if level > 1 then
                    bind_res (store_elem elements 1 node) (\<lambda>_.
                      ret (Tuple (elements[1 := node])))
                  else (case node of
                          Tuple tuple1 \<Rightarrow> ret (Quasiquote (ExpandList tuple1))
                        | _ \<Rightarrow> ret (Quasiquote node)))
            | _ \<Rightarrow> ret (Quasiquote (elements ! 1))))"
| "ParseNestedQuasiquote elements level =
     (if length elements = 0 then ret (Tuple elements)
      else (case elements ! 0 of
              Name name \<Rightarrow>
                if name = UNQUOTE then ParseUnquote elements (level - 1)
                else if name = UNQUOTE_SPLICING then ParseUnquoteSplicing elements (level - 1)
                else if name = QUASIQUOTE then ParseQuasiquote elements (level + 1)
                else bind_res (ParseNestedQuasiquote_loop elements level) (\<lambda>slice.
                       ret (Tuple slice))
            | _ \<Rightarrow> bind_res (ParseNestedQuasiquote_loop elements level) (\<lambda>slice.
                       ret (Tuple slice))))"
| "ParseNestedQuasiquote_loop elements level =
     (case elements of
        [] \<Rightarrow> ret []
      | node # rest \<Rightarrow>
          (case node of
             Tuple tuple \<Rightarrow>
               bind_res (ParseNestedQuasiquote tuple level) (\<lambda>node'.
               bind_res (ParseNestedQuasiquote_loop rest level) (\<lambda>slice. ret (node' # slice)))
           | _ \<Rightarrow>
               bind_res (ParseNestedQuasiquote_loop rest level) (\<lambda>slice. ret (node # slice))))"
| "ParseUnquote elements level =
     (if length elements \<noteq> 2 then panic (SyntaxError ''unquote: wrong number of parts'')
      else if level = 0 then
        bind_res (ParseNode (elements ! 1)) (\<lambda>expr. ret (Unquote expr))
      else (case elements ! 1 of
              Tuple datum \<Rightarrow>
                bind_res (ParseNestedQuasiquote datum level) (\<lambda>node.
                bind_res (store_elem elements 1 node) (\<lambda>_.
                  ret (Tuple (elements[1 := node]))))
            | _ \<Rightarrow> ret (Tuple elements)))"
| "ParseUnquoteSplicing elements level =
     (if length elements \<noteq> 2 then
        panic (SyntaxError ''unquote-splicing: wrong number of parts'')
      else if level = 0 then
        bind_res (ParseNode (elements ! 1)) (\<lambda>expr. ret (UnquoteSplicing expr))
      else (case elements ! 1 of
              Tuple datum \<Rightarrow>
                bind_res (ParseNestedQuasiquote datum level) (\<lambda>node.
                bind_res (store_elem elements 1 node) (\<lambda>_.
                  ret (Tuple (elements[1 := node]))))
            | _ \<Rightarrow> ret (Tuple elements)))"
| "ParseDefine elements =
     (if length elements < 3 then
        panic (SyntaxError ''define: bad syntax (missing expressions) '')
      else (case elements ! 1 of
              Name pattern \<Rightarrow>
                if length elements > 3 then
                  panic (SyntaxError ''define: bad syntax (multiple expressions) '')
                else bind_res (ParseNode (elements ! 2)) (\<lambda>value. ret (Define pattern value))
            | Tuple tuple \<Rightarrow>
                bind_res (ParseList (drop 2 elements)) (\<lambda>exprs.
                bind_res (ParseFunction tuple (Block exprs)) (\<lambda>function.
                  ret (Define (Caller function) function)))
            | _ \<Rightarrow> panic (SyntaxError ''unsupported parser type '')))"
| "ParseCall elements =
     (if length elements = 0 then panic (SyntaxError ''missing procedure expression'')
      else bind_res (ParseNode (elements ! 0)) (\<lambda>callee.
           bind_res (ParseList (drop 1 elements)) (\<lambda>args. ret (Call callee args))))"
| "ParseLambda elements =
     (if length elements < 3 then panic (SyntaxError ''lambda: bad syntax: '')
      else bind_res (ParseList (drop 2 elements)) (\<lambda>exprs.
             (case elements ! 1 of
                Name _ \<Rightarrow> ret (Lambda (elements ! 1) (Block exprs))
              | Tuple pattern \<Rightarrow>
                  (case ExpandFormals pattern of
                     Pair_node a b \<Rightarrow> ret (Lambda (Pair_node a b) (Block exprs))
                   | NilPair \<Rightarrow> ret (Lambda NilPair (Block exprs))
                   | _ \<Rightarrow> panic (SyntaxError ''lambda: illegal use of .''))
              | _ \<Rightarrow> panic (SyntaxError ''unsupported parser type ''))))"
| "ParseIf elements =
     (if length elements \<noteq> 3 \<and> length elements \<noteq> 4 then
        panic (SyntaxError ''incorrect format of if: %s'')
      else bind_res (ParseNode (elements ! 1)) (\<lambda>test.
           bind_res (ParseNode (elements ! 2)) (\<lambda>then'.
             if length elements = 3 then ret (If_node test then' None)
             else bind_res (ParseNode (elements ! 3)) (\<lambda>else'.
                    ret (If_node test then' (Some else'))))))"
| "ParseSet elements =
     (if length elements \<noteq> 3 then panic (SyntaxError ''incorrect format of set!: %s'')
      else bind_res (ParseNode (elements ! 1)) (\<lambda>pattern.
             (case pattern of
                Name name \<Rightarrow>
                  bind_res (ParseNode (elements ! 2)) (\<lambda>value. ret (Set_node name value))
              | _ \<Rightarrow> panic (SyntaxError ''set!: not an indentifier in %s''))))"
| "ParseDelay elements =
     (if length elements \<noteq> 2 then panic (SyntaxError ''delay: bad syntax in: %s'')
      else bind_res (ParseNode (elements ! 1)) (\<lambda>expr. ret (Delay expr)))"
| "ParseForce elements =
     (if length elements \<noteq> 2 then
        panic (SyntaxError ''force: argument number mismatch, expected 1'')
      else bind_res (ParseNode (elements ! 1)) (\<lambda>expr. ret (Force expr)))"
  by pat_completeness auto
termination
  apply (relation "measure ParseNode_measure")
  apply (auto simp: ParseNode_measure_def weight_level_def weight_simps intro: weight_nth_Tuple)
  done


lemmas keyword_defs = DEFINE_def BEGIN_def LAMBDA_def LET_def LET_STAR_def LET_REC_def GO_def
  SELECT_def IF_def SET_def APPLY_def QUOTE_def QUASIQUOTE_def UNQUOTE_def UNQUOTE_SPLICING_def
  DELAY_def FORCE_def CHAN_SEND_def CHAN_RECV_def DEFAULT_def


declare ParseFunction_loop.simps [simp del]
declare ParseNode.simps [simp del] ParseList.simps [simp del] ParseBegin.simps [simp del]
  ParseGo.simps [simp del] ParseApply.simps [simp del] ParseSelect.simps [simp del]
  ParseSelect_loop.simps [simp del] ParseLetFamily.simps [simp del]
  ParseLetFamily_loop.simps [simp del] ParseQuasiquote.simps [simp del]
  ParseNestedQuasiquote.simps [simp del] ParseNestedQuasiquote_loop.simps [simp del]
  ParseUnquote.simps [simp del] ParseUnquoteSplicing.simps [simp del]
  ParseDefine.simps [simp del] ParseCall.simps [simp del] ParseLambda.simps [simp del]
  ParseIf.simps [simp del] ParseSet.simps [simp del] ParseDelay.simps [simp del]
  ParseForce.simps [simp del]

lemmas Parse_simps = ParseNode.simps ParseList.simps ParseBegin.simps ParseGo.simps
  ParseApply.simps ParseSelect.simps ParseSelect_loop.simps ParseLetFamily.simps
  ParseLetFamily_loop.simps ParseQuasiquote.simps ParseNestedQuasiquote.simps
  ParseNestedQuasiquote_loop.simps ParseUnquote.simps ParseUnquoteSplicing.simps
  ParseDefine.simps ParseCall.simps ParseLambda.simps ParseIf.simps ParseSet.simps
  ParseDelay.simps ParseForce.simps ParseFunction_def ParseFunction_loop.simps
  ParseQuote_def ParseSelect_case_def

lemmas res_defs = ret_def panic_def bind_res_def store_elem_def

section \<open>Notions used in the statements\<close>

text \<open>
  The keywords \<open>ParseNode\<close> switches on, in the order of the source.
\<close>

definition special_forms :: "string list" where
  "special_forms = [DEFINE, BEGIN, LAMBDA, LET, LET_STAR, LET_REC, GO, SELECT, IF, SET, APPLY,
     QUOTE, QUASIQUOTE, UNQUOTE, UNQUOTE_SPLICING, DELAY, FORCE]"

text \<open>
  A curried target with the function name \<open>f\<close> innermost and the formal lists
  \<open>layers\<close> from the innermost to the outermost layer, as a raw node, and the lambdas
  nested from the innermost layer outwards around a body.
\<close>

definition curried_pattern :: "string \<Rightarrow> node list list \<Rightarrow> node" where
  "curried_pattern f layers = foldl (\<lambda>target formals. Tuple (target # formals)) (Name f) layers"

definition nested_lambda :: "node list list \<Rightarrow> node \<Rightarrow> node" where
  "nested_lambda layers body = foldr (\<lambda>formals inner. Lambda (ExpandFormals formals) inner) layers body"

text \<open>
  The specification's words for a clause (section 4.6): its first analysed element is a
  call to the channel-send operation with exactly 2 arguments, a call to the
  channel-receive operation with exactly 1 argument, or the \<open>default\<close> identifier. A
  clause is accepted with the analysed sequence \<open>parsed\<close> when it is a non-empty list whose
  elements analyse to \<open>parsed\<close> and the first of them is such a case; it is rejected for
  its shape when it is not a list, is the empty list, or its elements analyse and the
  first of them is no such case.
\<close>

fun is_select_case :: "node \<Rightarrow> bool" where
  "is_select_case (Call (Name ident) args) =
     (ident = CHAN_SEND \<and> length args = 2 \<or> ident = CHAN_RECV \<and> length args = 1)"
| "is_select_case (Name ident) = (ident = DEFAULT)"
| "is_select_case _ = False"

definition select_clause_accepted :: "node \<Rightarrow> node list \<Rightarrow> bool" where
  "select_clause_accepted clause parsed =
     (case clause of
        Tuple exprs \<Rightarrow> exprs \<noteq> [] \<and> snd (ParseList exprs) = Inr parsed \<and> is_select_case (hd parsed)
      | _ \<Rightarrow> False)"

definition select_clause_rejected :: "node \<Rightarrow> bool" where
  "select_clause_rejected clause =
     (case clause of
        Tuple exprs \<Rightarrow>
          exprs = [] \<or>
          (case snd (ParseList exprs) of Inl _ \<Rightarrow> False | Inr parsed \<Rightarrow> \<not> is_select_case (hd parsed))
      | _ \<Rightarrow> True)"

text \<open>
  A binding is a two-element list whose first element is an identifier; \<open>binding\<close> builds
  one from a name and an initialiser. \<open>let_node\<close> is the constructor the source chooses for
  the keyword, \<open>binding_error\<close> the panic of the binding loop.
\<close>

fun is_binding :: "node \<Rightarrow> bool" where
  "is_binding (Tuple [Name name, init]) = True"
| "is_binding _ = False"

definition binding :: "string \<times> node \<Rightarrow> node" where
  "binding b = Tuple [Name (fst b), snd b]"

definition let_node :: "string \<Rightarrow> string list \<Rightarrow> node list \<Rightarrow> node \<Rightarrow> node" where
  "let_node keyword =
     (if keyword = LET then Let_node else if keyword = LET_STAR then LetStar else LetRec)"

definition binding_error :: error where
  "binding_error = SyntaxError ''%s: bad syntax, not an identifer and expression for a binding %s''"



section \<open>Properties\<close>

subsection \<open>Sequencing\<close>

lemma bind_res_ret [simp]: "bind_res (ret x) f = f x"
  by (simp add: bind_res_def ret_def split: prod.splits)

lemma bind_res_panic [simp]: "bind_res (panic e) f = panic e"
  by (simp add: bind_res_def panic_def)

lemma bind_res_Inl [simp]: "bind_res (w, Inl e) f = (w, Inl e)"
  by (simp add: bind_res_def)

lemma bind_res_Inr [simp]: "bind_res (w, Inr x) f = (w @ fst (f x), snd (f x))"
  by (simp add: bind_res_def split: prod.splits)

lemma snd_bind_res:
  "snd (bind_res m f) = (case snd m of Inl e \<Rightarrow> Inl e | Inr x \<Rightarrow> snd (f x))"
  by (cases m) (simp add: bind_res_def split: sum.splits prod.splits)


lemma snd_ret [simp]: "snd (ret x) = Inr x"
  by (simp add: ret_def)

lemma fst_ret [simp]: "fst (ret x) = []"
  by (simp add: ret_def)

lemma snd_panic [simp]: "snd (panic e) = Inl e"
  by (simp add: panic_def)

lemma fst_panic [simp]: "fst (panic e) = []"
  by (simp add: panic_def)

subsection \<open>The dispatcher\<close>

lemma ParseNode_Tuple_Nil: "ParseNode (Tuple []) = panic (SyntaxError ''syntax error, empty list'')"
  by (simp add: ParseNode.simps)

lemma ParseNode_Name_head:
  "ParseNode (Tuple (Name name # rest)) =
     (let elements = Name name # rest in
      if name = DEFINE then ParseDefine elements
      else if name = BEGIN then ParseBegin elements
      else if name = LAMBDA then ParseLambda elements
      else if name = LET \<or> name = LET_STAR \<or> name = LET_REC then ParseLetFamily elements
      else if name = GO then ParseGo elements
      else if name = SELECT then ParseSelect elements
      else if name = IF then ParseIf elements
      else if name = SET then ParseSet elements
      else if name = APPLY then ParseApply elements
      else if name = QUOTE then ParseQuote elements
      else if name = QUASIQUOTE then ParseQuasiquote elements 1
      else if name = UNQUOTE then panic (SyntaxError ''unquote: not in quasiquote'')
      else if name = UNQUOTE_SPLICING then
        panic (SyntaxError ''unquote-splicing: not in quasiquote'')
      else if name = DELAY then ParseDelay elements
      else if name = FORCE then ParseForce elements
      else ParseCall elements)"
  by (simp add: ParseNode.simps Let_def)

text \<open>
  C8. An \<open>unquote\<close> or \<open>unquote-splicing\<close> form that reaches the dispatcher, whatever
  follows the keyword, panics with the message "not in quasiquote": the result is the
  error, no node is produced, and nothing is stored.
\<close>

theorem unquote_outside_quasiquote:
  "ParseNode (Tuple (Name UNQUOTE # rest)) =
     ([], Inl (SyntaxError ''unquote: not in quasiquote'')) \<and>
   ParseNode (Tuple (Name UNQUOTE_SPLICING # rest)) =
     ([], Inl (SyntaxError ''unquote-splicing: not in quasiquote''))"
  by (simp add: ParseNode_Name_head keyword_defs panic_def)

text \<open>
  C9. \<open>(begin)\<close> is accepted and yields a \<open>Begin\<close> node whose block is empty. Among the
  keywords of the dispatcher, \<open>begin\<close> is the only one whose form consisting of the keyword
  alone is analysed successfully: every other parslet asks for more elements.
\<close>

theorem begin_without_body:
  "ParseNode (Tuple [Name BEGIN]) = ([], Inr (Begin (Block []))) \<and>
   (\<forall>kw \<in> set special_forms.
      (\<exists>r. snd (ParseNode (Tuple [Name kw])) = Inr r) \<longleftrightarrow> kw = BEGIN)"
  by (simp add: special_forms_def ParseNode_Name_head Parse_simps keyword_defs ret_def panic_def)

theorem begin_without_body_witness:
  "IF \<in> set special_forms \<and> \<not> (\<exists>r. snd (ParseNode (Tuple [Name IF])) = Inr r) \<and>
   BEGIN \<in> set special_forms \<and> (\<exists>r. snd (ParseNode (Tuple [Name BEGIN])) = Inr r)"
  using begin_without_body by (simp add: special_forms_def keyword_defs)

lemma ParseList_Nil: "ParseList [] = ret []"
  by (simp add: ParseList.simps)

lemma ParseList_Cons:
  "ParseList (node # rest) =
     bind_res (ParseNode node) (\<lambda>p. bind_res (ParseList rest) (\<lambda>parsed. ret (p # parsed)))"
  by (simp add: ParseList.simps [of "_ # _"])

lemma snd_ParseList_Cons:
  "snd (ParseList (node # rest)) =
     (case snd (ParseNode node) of
        Inl e \<Rightarrow> Inl e
      | Inr p \<Rightarrow> (case snd (ParseList rest) of Inl e \<Rightarrow> Inl e | Inr parsed \<Rightarrow> Inr (p # parsed)))"
  by (simp add: ParseList_Cons snd_bind_res split: sum.splits)

lemma snd_ParseList_iff:
  "snd (ParseList nodes) = Inr parsed \<longleftrightarrow>
     list_all2 (\<lambda>node p. snd (ParseNode node) = Inr p) nodes parsed"
proof (induction nodes arbitrary: parsed)
  case Nil
  show ?case by (auto simp: ParseList_Nil)
next
  case (Cons node rest)
  show ?case
    by (cases parsed) (auto simp: snd_ParseList_Cons Cons.IH [symmetric] split: sum.splits)
qed

lemma ParseNode_atom: "(\<forall>es. node \<noteq> Tuple es) \<Longrightarrow> ParseNode node = ret node"
  by (cases node) (simp_all add: ParseNode.simps)

lemma ParseNode_not_procedure:
  "(\<forall>s. head \<noteq> Name s) \<Longrightarrow> (\<forall>es. head \<noteq> Tuple es) \<Longrightarrow>
   ParseNode (Tuple (head # rest)) = panic (SyntaxError ''%s: not a procedure'')"
  by (cases head) (simp_all add: ParseNode.simps)

lemma ParseNode_Tuple_head:
  "ParseNode (Tuple (Tuple es # rest)) = ParseCall (Tuple es # rest)"
  by (simp add: ParseNode.simps)

lemma ParseNode_other_Name:
  "s \<notin> set special_forms \<Longrightarrow> ParseNode (Tuple (Name s # rest)) = ParseCall (Name s # rest)"
  by (simp add: ParseNode_Name_head special_forms_def)

lemma ParseCall_Cons:
  "ParseCall (head # rest) =
     bind_res (ParseNode head) (\<lambda>callee.
     bind_res (ParseList rest) (\<lambda>args. ret (Call callee args)))"
  by (simp add: ParseCall.simps)

lemma snd_ParseCall_Cons:
  "snd (ParseCall (head # rest)) =
     (case snd (ParseNode head) of
        Inl e \<Rightarrow> Inl e
      | Inr callee \<Rightarrow>
          (case snd (ParseList rest) of Inl e \<Rightarrow> Inl e | Inr args \<Rightarrow> Inr (Call callee args)))"
  by (simp add: ParseCall_Cons snd_bind_res split: sum.splits)

text \<open>
  C7. The dispatcher returns a node that is not a list unchanged; the empty list is the
  "empty list" syntax error; a list whose head is neither an identifier nor a list is the
  "not a procedure" syntax error; a list whose head is an identifier outside the keywords,
  or a list, is a procedure call: the head is analysed first, as the callee, then the
  remaining elements from left to right, the first panic being the result, and on success
  the node is \<open>Call\<close> of the analysed callee and the analysed arguments in their order.
\<close>

theorem dispatcher_cases:
  "((\<forall>es. node \<noteq> Tuple es) \<longrightarrow> ParseNode node = ([], Inr node)) \<and>
   ParseNode (Tuple []) = ([], Inl (SyntaxError ''syntax error, empty list'')) \<and>
   ((\<forall>s. other \<noteq> Name s) \<and> (\<forall>es. other \<noteq> Tuple es) \<longrightarrow>
      ParseNode (Tuple (other # rest)) = ([], Inl (SyntaxError ''%s: not a procedure''))) \<and>
   ((\<exists>s. head = Name s \<and> s \<notin> set special_forms) \<or> (\<exists>es. head = Tuple es) \<longrightarrow>
      snd (ParseNode (Tuple (head # rest))) =
        (case snd (ParseNode head) of
           Inl e \<Rightarrow> Inl e
         | Inr callee \<Rightarrow>
             (case snd (ParseList rest) of
                Inl e \<Rightarrow> Inl e
              | Inr args \<Rightarrow> Inr (Call callee args))) \<and>
      (snd (ParseNode (Tuple (head # rest))) = Inr r \<longleftrightarrow>
         (\<exists>callee args. r = Call callee args \<and> snd (ParseNode head) = Inr callee \<and>
            list_all2 (\<lambda>arg p. snd (ParseNode arg) = Inr p) rest args)))"
proof -
  have atom: "(\<forall>es. node \<noteq> Tuple es) \<longrightarrow> ParseNode node = ([], Inr node)"
    by (simp add: ParseNode_atom ret_def)
  have empty: "ParseNode (Tuple []) = ([], Inl (SyntaxError ''syntax error, empty list''))"
    by (simp add: ParseNode_Tuple_Nil panic_def)
  have other: "(\<forall>s. other \<noteq> Name s) \<and> (\<forall>es. other \<noteq> Tuple es) \<longrightarrow>
      ParseNode (Tuple (other # rest)) = ([], Inl (SyntaxError ''%s: not a procedure''))"
    by (simp add: ParseNode_not_procedure panic_def)
  have call: "snd (ParseNode (Tuple (head # rest))) =
        (case snd (ParseNode head) of
           Inl e \<Rightarrow> Inl e
         | Inr callee \<Rightarrow>
             (case snd (ParseList rest) of
                Inl e \<Rightarrow> Inl e
              | Inr args \<Rightarrow> Inr (Call callee args))) \<and>
      (snd (ParseNode (Tuple (head # rest))) = Inr r \<longleftrightarrow>
         (\<exists>callee args. r = Call callee args \<and> snd (ParseNode head) = Inr callee \<and>
            list_all2 (\<lambda>arg p. snd (ParseNode arg) = Inr p) rest args))"
    if "(\<exists>s. head = Name s \<and> s \<notin> set special_forms) \<or> (\<exists>es. head = Tuple es)"
  proof -
    from that have "ParseNode (Tuple (head # rest)) = ParseCall (head # rest)"
      by (auto simp: ParseNode_Tuple_head ParseNode_other_Name)
    then show ?thesis
      by (auto simp: snd_ParseCall_Cons snd_ParseList_iff [symmetric] split: sum.splits)
  qed
  from atom empty other call show ?thesis by blast
qed

theorem dispatcher_cases_witness:
  "ParseNode (Name ''x'') = ([], Inr (Name ''x'')) \<and>
   ParseNode (Tuple [Lit (Number 1), Name ''x'']) = ([], Inl (SyntaxError ''%s: not a procedure'')) \<and>
   snd (ParseNode (Tuple [Name ''f'', Name ''x'', Name ''y''])) =
     Inr (Call (Name ''f'') [Name ''x'', Name ''y'']) \<and>
   snd (ParseNode (Tuple [Tuple [Name ''f'', Name ''x''], Name ''y''])) =
     Inr (Call (Call (Name ''f'') [Name ''x'']) [Name ''y''])"
proof -
  have f: "''f'' \<notin> set special_forms"
    by (simp add: special_forms_def keyword_defs)
  have x: "ParseNode (Name s) = ([], Inr (Name s))" for s
    using dispatcher_cases [where node = "Name s"] by simp
  have l: "snd (ParseList [Name s]) = Inr [Name s]" for s
    by (simp add: snd_ParseList_Cons ParseList_Nil x)
  have l2: "snd (ParseList [Name s, Name t]) = Inr [Name s, Name t]" for s t
    by (simp add: snd_ParseList_Cons ParseList_Nil x)
  have inner: "snd (ParseNode (Tuple [Name ''f'', Name ''x''])) = Inr (Call (Name ''f'') [Name ''x''])"
    using dispatcher_cases [where head = "Name ''f''" and rest = "[Name ''x'']"] f
    by (simp add: x l)
  show ?thesis
    using dispatcher_cases [where node = "Name ''x''" and other = "Lit (Number 1)"
        and head = "Name ''f''" and rest = "[Name ''x'', Name ''y'']"]
      dispatcher_cases [where other = "Lit (Number 1)" and rest = "[Name ''x'']"]
      dispatcher_cases [where head = "Tuple [Name ''f'', Name ''x'']" and rest = "[Name ''y'']"] f
    by (simp add: x l l2 inner)
qed

subsection \<open>The quasiquote engine\<close>

text \<open>
  C10. The scanner returns an empty list as it is, at every level, and nothing is stored;
  met as an element of a template, the empty list stays in the scanned list. The same
  empty list given to the dispatcher is the "empty list" syntax error.
\<close>

theorem empty_list_in_template:
  "ParseNestedQuasiquote [] level = ([], Inr (Tuple [])) \<and>
   snd (ParseNestedQuasiquote_loop (Tuple [] # rest) level) =
     (case snd (ParseNestedQuasiquote_loop rest level) of
        Inl e \<Rightarrow> Inl e
      | Inr slice \<Rightarrow> Inr (Tuple [] # slice)) \<and>
   ParseNode (Tuple []) = ([], Inl (SyntaxError ''syntax error, empty list''))"
proof -
  have scan: "ParseNestedQuasiquote [] level = ret (Tuple [])"
    by (simp add: ParseNestedQuasiquote.simps)
  have "ParseNestedQuasiquote_loop (Tuple [] # rest) level =
          bind_res (ParseNestedQuasiquote_loop rest level) (\<lambda>slice. ret (Tuple [] # slice))"
    by (simp add: ParseNestedQuasiquote_loop.simps [of "_ # _"] scan)
  then have loop: "snd (ParseNestedQuasiquote_loop (Tuple [] # rest) level) =
     (case snd (ParseNestedQuasiquote_loop rest level) of
        Inl e \<Rightarrow> Inl e
      | Inr slice \<Rightarrow> Inr (Tuple [] # slice))"
    by (simp add: snd_bind_res split: sum.splits)
  from scan loop show ?thesis
    by (simp add: ParseNode_Tuple_Nil ret_def panic_def)
qed



text \<open>
  C2. The source's own comment in \<^verbatim>\<open>ParseQuasiquote\<close> reads "only level 1 will be parsed as
  Quasiquote Node", but the level is tested in the list branch only: a quasiquote form
  whose template is an atom becomes a \<open>Quasiquote\<close> node at every level. The input
  \<^verbatim>\<open>(quasiquote (quasiquote x))\<close> yields a \<open>Quasiquote\<close> node built at level 2 inside the
  outer one.
\<close>

theorem nested_quasiquote_atom_template:
  "ParseQuasiquote [Name QUASIQUOTE, Name x] 2 = ([], Inr (Quasiquote (Name x))) \<and>
   ParseNode (Tuple [Name QUASIQUOTE, Tuple [Name QUASIQUOTE, Name ''x'']]) =
     ([], Inr (Quasiquote (Quasiquote (Name ''x''))))"
  by (simp add: Parse_simps keyword_defs ret_def panic_def store_elem_def)

subsection \<open>Curried definitions\<close>

lemma ParseFunction_loop_curried:
  "ParseFunction_loop (curried_pattern f layers # formals) body =
     ret (Function f (nested_lambda layers (Lambda (ExpandFormals formals) body)))"
proof (induction layers arbitrary: formals body rule: rev_induct)
  case Nil
  show ?case
    by (simp add: curried_pattern_def nested_lambda_def ParseFunction_loop.simps [of "_ # _"])
next
  case (snoc layer layers)
  have "ParseFunction_loop (curried_pattern f (layers @ [layer]) # formals) body =
        ParseFunction_loop (curried_pattern f layers # layer) (Lambda (ExpandFormals formals) body)"
    by (simp add: curried_pattern_def ParseFunction_loop.simps [of "Tuple _ # _"])
  then show ?case
    by (simp add: snoc.IH nested_lambda_def)
qed

lemma ParseFunction_curried:
  assumes "layers \<noteq> []"
  shows "\<exists>tuple. curried_pattern f layers = Tuple tuple \<and>
           ParseFunction tuple tail = ret (Function f (nested_lambda layers tail))"
proof -
  from assms obtain inner outer where layers: "layers = inner @ [outer]"
    by (cases layers rule: rev_cases) auto
  have "curried_pattern f layers = Tuple (curried_pattern f inner # outer)"
    by (simp add: layers curried_pattern_def)
  moreover have "ParseFunction (curried_pattern f inner # outer) tail =
      ret (Function f (nested_lambda layers tail))"
    by (simp add: ParseFunction_def ParseFunction_loop_curried layers nested_lambda_def)
  ultimately show ?thesis by blast
qed

text \<open>
  C4. For a define whose target is a nested list pattern of any depth, with at least one
  body expression, the analysis unwraps the pattern layer by layer: the innermost
  identifier \<open>f\<close> is the name defined, and the value is the \<open>Function\<close> node that pairs \<open>f\<close>
  with the lambda over the innermost formals, whose body is the lambda over the next
  formals, and so on outwards, the last body being the block of the analysed body
  expressions. For \<^verbatim>\<open>(define ((f x) y) b)\<close> this is the lambda over \<open>x\<close> whose body is the
  lambda over \<open>y\<close> whose body is \<open>b\<close>, the nesting of
  \<^verbatim>\<open>(define f (lambda (x) (lambda (y) b)))\<close>.
\<close>

theorem curried_define:
  "layers \<noteq> [] \<longrightarrow>
   snd (ParseNode (Tuple (Name DEFINE # curried_pattern f layers # b # bs))) =
     (case snd (ParseList (b # bs)) of
        Inl e \<Rightarrow> Inl e
      | Inr body \<Rightarrow> Inr (Define f (Function f (nested_lambda layers (Block body)))))"
proof
  assume "layers \<noteq> []"
  then obtain tuple where tuple: "curried_pattern f layers = Tuple tuple"
    and fn: "\<And>tail. ParseFunction tuple tail = ret (Function f (nested_lambda layers tail))"
    using ParseFunction_curried [of layers f] by (metis node.inject(3))
  have "ParseNode (Tuple (Name DEFINE # Tuple tuple # b # bs)) =
      ParseDefine (Name DEFINE # Tuple tuple # b # bs)"
    by (simp add: ParseNode_Name_head)
  also have "\<dots> = bind_res (ParseList (b # bs)) (\<lambda>exprs.
                bind_res (ParseFunction tuple (Block exprs)) (\<lambda>function.
                  ret (Define (Caller function) function)))"
    by (simp add: ParseDefine.simps)
  finally show "snd (ParseNode (Tuple (Name DEFINE # curried_pattern f layers # b # bs))) =
     (case snd (ParseList (b # bs)) of
        Inl e \<Rightarrow> Inl e
      | Inr body \<Rightarrow> Inr (Define f (Function f (nested_lambda layers (Block body)))))"
    by (simp add: tuple fn snd_bind_res split: sum.splits)
qed

theorem curried_define_witness:
  "[[Name ''x''], [Name ''y'']] \<noteq> [] \<and>
   curried_pattern ''f'' [[Name ''x''], [Name ''y'']] =
     Tuple [Tuple [Name ''f'', Name ''x''], Name ''y''] \<and>
   snd (ParseNode (Tuple [Name DEFINE, Tuple [Tuple [Name ''f'', Name ''x''], Name ''y''],
                          Name ''b''])) =
     Inr (Define ''f'' (Function ''f''
            (Lambda (Pair_node (Name ''x'') NilPair)
               (Lambda (Pair_node (Name ''y'') NilPair) (Block [Name ''b''])))))"
proof -
  have b: "snd (ParseList [Name ''b'']) = Inr [Name ''b'']"
    by (simp add: snd_ParseList_Cons ParseList_Nil ParseNode_atom)
  have p: "curried_pattern ''f'' [[Name ''x''], [Name ''y'']] =
     Tuple [Tuple [Name ''f'', Name ''x''], Name ''y'']"
    by (simp add: curried_pattern_def)
  show ?thesis
    using curried_define [of "[[Name ''x''], [Name ''y'']]" "''f''" "Name ''b''" "[]"]
    by (simp add: b p nested_lambda_def)
qed

subsection \<open>Select clauses\<close>

lemma ParseSelect_case_accepts:
  "is_select_case first \<Longrightarrow> ParseSelect_case first = ret ()"
  by (induction first rule: is_select_case.induct)
     (auto simp: ParseSelect_case_def keyword_defs)

lemma ParseSelect_case_rejects:
  "\<not> is_select_case first \<Longrightarrow> \<exists>msg. ParseSelect_case first = panic (SyntaxError msg)"
  by (induction first rule: is_select_case.induct)
     (auto simp: ParseSelect_case_def)

lemma ParseList_nonempty:
  "snd (ParseList exprs) = Inr parsed \<Longrightarrow> exprs \<noteq> [] \<Longrightarrow> parsed \<noteq> []"
  by (auto simp: snd_ParseList_iff)

lemma snd_ParseSelect_loop_Nil: "ParseSelect_loop [] = ret []"
  by (simp add: ParseSelect_loop.simps)

lemma snd_ParseSelect_loop_accepted:
  assumes "select_clause_accepted clause parsed"
  shows "snd (ParseSelect_loop (clause # rest)) =
     (case snd (ParseSelect_loop rest) of Inl e \<Rightarrow> Inl e | Inr clauses \<Rightarrow> Inr (parsed # clauses))"
proof -
  from assms obtain exprs where c: "clause = Tuple exprs" "exprs \<noteq> []"
    "snd (ParseList exprs) = Inr parsed" "is_select_case (hd parsed)"
    by (auto simp: select_clause_accepted_def split: node.splits)
  then obtain first more where p: "parsed = first # more"
    using ParseList_nonempty by (cases parsed) auto
  with c have "ParseSelect_case first = ret ()"
    by (simp add: ParseSelect_case_accepts)
  with c p show ?thesis
    by (simp add: ParseSelect_loop.simps [of "_ # _"] snd_bind_res split: sum.splits)
qed

lemma snd_ParseSelect_loop_rejected:
  assumes "select_clause_rejected clause"
  shows "\<exists>msg. snd (ParseSelect_loop (clause # rest)) = Inl (SyntaxError msg)"
proof (cases clause)
  case (Tuple exprs)
  show ?thesis
  proof (cases "exprs = []")
    case True
    with Tuple show ?thesis
      by (simp add: ParseSelect_loop.simps [of "_ # _"])
  next
    case False
    with assms Tuple obtain parsed where p: "snd (ParseList exprs) = Inr parsed"
      "\<not> is_select_case (hd parsed)"
      by (auto simp: select_clause_rejected_def split: sum.splits)
    with False obtain first more where q: "parsed = first # more"
      using ParseList_nonempty by (cases parsed) auto
    with p obtain msg where "ParseSelect_case first = panic (SyntaxError msg)"
      using ParseSelect_case_rejects [of first] by auto
    with Tuple False p q show ?thesis
      by (simp add: ParseSelect_loop.simps [of "_ # _"] snd_bind_res)
  qed
qed (use assms in \<open>simp_all add: ParseSelect_loop.simps [of "_ # _"]\<close>)

lemma snd_ParseSelect_loop_not_accepted:
  assumes "\<forall>parsed. \<not> select_clause_accepted clause parsed"
  shows "\<exists>e. snd (ParseSelect_loop (clause # rest)) = Inl e"
proof (cases "select_clause_rejected clause")
  case True
  then show ?thesis using snd_ParseSelect_loop_rejected by blast
next
  case False
  then obtain exprs where c: "clause = Tuple exprs" "exprs \<noteq> []"
    by (auto simp: select_clause_rejected_def split: node.splits)
  with False assms obtain e where "snd (ParseList exprs) = Inl e"
    by (cases "snd (ParseList exprs)")
       (auto simp: select_clause_rejected_def select_clause_accepted_def)
  with c show ?thesis
    by (simp add: ParseSelect_loop.simps [of "_ # _"] snd_bind_res)
qed

lemma snd_ParseSelect_loop_iff:
  "snd (ParseSelect_loop clauses) = Inr parsed \<longleftrightarrow>
     list_all2 select_clause_accepted clauses parsed"
proof (induction clauses arbitrary: parsed)
  case Nil
  show ?case by (auto simp: snd_ParseSelect_loop_Nil)
next
  case (Cons clause rest)
  show ?case
  proof (cases "\<exists>p. select_clause_accepted clause p")
    case True
    then obtain p where p: "select_clause_accepted clause p" by blast
    then have uniq: "select_clause_accepted clause q \<longleftrightarrow> q = p" for q
      by (auto simp: select_clause_accepted_def split: node.splits)
    show ?thesis
      by (cases parsed)
         (auto simp: snd_ParseSelect_loop_accepted [OF p] uniq Cons.IH [symmetric]
           split: sum.splits)
  next
    case False
    then have "\<exists>e. snd (ParseSelect_loop (clause # rest)) = Inl e"
      using snd_ParseSelect_loop_not_accepted by blast
    with False show ?thesis
      by (cases parsed) auto
  qed
qed

lemma snd_ParseSelect_loop_prefix:
  assumes "list_all2 select_clause_accepted good parsed"
  shows "snd (ParseSelect_loop (good @ rest)) =
     (case snd (ParseSelect_loop rest) of Inl e \<Rightarrow> Inl e | Inr clauses \<Rightarrow> Inr (parsed @ clauses))"
  using assms
proof (induction good parsed rule: list_all2_induct)
  case Nil
  show ?case by (simp split: sum.splits)
next
  case (Cons clause p good parsed)
  then show ?case
    by (simp add: snd_ParseSelect_loop_accepted split: sum.splits)
qed

lemma ParseNode_select:
  "snd (ParseNode (Tuple (Name SELECT # clauses))) =
     (if clauses = [] then
        Inl (SyntaxError ''select: bad syntax (missing clauses), expected at least 1'')
      else (case snd (ParseSelect_loop clauses) of Inl e \<Rightarrow> Inl e | Inr parsed \<Rightarrow> Inr (Select parsed)))"
  by (cases clauses)
     (simp_all add: ParseNode_Name_head keyword_defs ParseSelect.simps snd_bind_res
       split: sum.splits)

text \<open>
  C5. A select form is analysed successfully exactly when it has at least one clause and
  every clause is accepted, and the result is the \<open>Select\<close> node of the analysed clauses
  in order. A clause rejected for its shape, after clauses that are accepted, makes the
  analysis of the whole form fail with a syntax error.
\<close>

theorem select_clauses:
  "(snd (ParseNode (Tuple (Name SELECT # clauses))) = Inr r \<longleftrightarrow>
      clauses \<noteq> [] \<and> (\<exists>parsed. r = Select parsed \<and> list_all2 select_clause_accepted clauses parsed)) \<and>
   (list_all2 select_clause_accepted good parsed \<and> select_clause_rejected bad \<longrightarrow>
      (\<exists>msg. snd (ParseNode (Tuple (Name SELECT # good @ bad # rest))) = Inl (SyntaxError msg)))"
proof -
  have accept: "snd (ParseNode (Tuple (Name SELECT # clauses))) = Inr r \<longleftrightarrow>
      clauses \<noteq> [] \<and> (\<exists>parsed. r = Select parsed \<and> list_all2 select_clause_accepted clauses parsed)"
    by (auto simp: ParseNode_select snd_ParseSelect_loop_iff [symmetric] split: sum.splits)
  have reject: "\<exists>msg. snd (ParseNode (Tuple (Name SELECT # good @ bad # rest))) = Inl (SyntaxError msg)"
    if "list_all2 select_clause_accepted good parsed" "select_clause_rejected bad"
  proof -
    from that(2) obtain msg where "snd (ParseSelect_loop (bad # rest)) = Inl (SyntaxError msg)"
      using snd_ParseSelect_loop_rejected by blast
    with that(1) show ?thesis
      by (simp add: ParseNode_select snd_ParseSelect_loop_prefix)
  qed
  from accept reject show ?thesis by blast
qed


theorem select_clauses_witness:
  "snd (ParseNode (Tuple [Name SELECT,
          Tuple [Tuple [Name CHAN_RECV, Name ''ch''], Name ''x''],
          Tuple [Name DEFAULT, Name ''y'']])) =
     Inr (Select [[Call (Name CHAN_RECV) [Name ''ch''], Name ''x''], [Name DEFAULT, Name ''y'']]) \<and>
   list_all2 select_clause_accepted [] [] \<and>
   select_clause_rejected (Tuple [Name ''x'', Name ''y'']) \<and>
   (\<exists>msg. snd (ParseNode (Tuple [Name SELECT, Tuple [Name ''x'', Name ''y'']])) =
      Inl (SyntaxError msg))"
proof -
  have recv: "select_clause_accepted (Tuple [Tuple [Name CHAN_RECV, Name ''ch''], Name ''x''])
      [Call (Name CHAN_RECV) [Name ''ch''], Name ''x'']"
    by (simp add: select_clause_accepted_def Parse_simps keyword_defs ret_def panic_def)
  have dflt: "select_clause_accepted (Tuple [Name DEFAULT, Name ''y'']) [Name DEFAULT, Name ''y'']"
    by (simp add: select_clause_accepted_def Parse_simps keyword_defs ret_def panic_def)
  have bad: "select_clause_rejected (Tuple [Name ''x'', Name ''y''])"
    by (simp add: select_clause_rejected_def Parse_simps keyword_defs ret_def panic_def)
  show ?thesis
    using select_clauses [where clauses = "[Tuple [Tuple [Name CHAN_RECV, Name ''ch''], Name ''x''],
          Tuple [Name DEFAULT, Name ''y'']]"
        and r = "Select [[Call (Name CHAN_RECV) [Name ''ch''], Name ''x''], [Name DEFAULT, Name ''y'']]"
        and good = "[]" and parsed = "[]" and bad = "Tuple [Name ''x'', Name ''y'']" and rest = "[]"]
      recv dflt bad
    by simp
qed

subsection \<open>The let family\<close>

lemma is_binding_iff: "is_binding b \<longleftrightarrow> (\<exists>name init. b = Tuple [Name name, init])"
  by (induction b rule: is_binding.induct) simp_all

lemma ParseLetFamily_loop_Nil: "ParseLetFamily_loop [] = ret ([], [])"
  by (simp add: ParseLetFamily_loop.simps)

lemma ParseLetFamily_loop_binding:
  "ParseLetFamily_loop (Tuple [Name name, init] # rest) =
     bind_res (ParseNode init) (\<lambda>expr.
     bind_res (ParseLetFamily_loop rest) (\<lambda>(patterns, exprs).
       ret (name # patterns, expr # exprs)))"
  by (simp add: ParseLetFamily_loop.simps [of "_ # _"])

lemma ParseLetFamily_loop_malformed:
  "\<not> is_binding bad \<Longrightarrow> ParseLetFamily_loop (bad # rest) = panic binding_error"
  by (induction bad rule: is_binding.induct)
     (simp_all add: ParseLetFamily_loop.simps [of "_ # _"] binding_error_def split: node.splits)

lemma snd_ParseLetFamily_loop_good:
  "snd (ParseLetFamily_loop (map binding bs @ rest)) =
     (case snd (ParseList (map snd bs)) of
        Inl e \<Rightarrow> Inl e
      | Inr exprs \<Rightarrow>
          (case snd (ParseLetFamily_loop rest) of
             Inl e \<Rightarrow> Inl e
           | Inr (patterns, more) \<Rightarrow> Inr (map fst bs @ patterns, exprs @ more)))"
proof (induction bs)
  case Nil
  show ?case by (simp add: ParseList_Nil split: sum.splits)
next
  case (Cons b bs)
  show ?case
    by (simp add: binding_def ParseLetFamily_loop_binding snd_ParseList_Cons snd_bind_res
        Cons.IH [unfolded binding_def] split: sum.splits prod.splits)
qed

lemma all_bindings: "list_all is_binding bindings \<Longrightarrow> \<exists>bs. bindings = map binding bs"
proof (induction bindings)
  case Nil
  show ?case by simp
next
  case (Cons b bindings)
  then obtain bs where "bindings = map binding bs" by auto
  moreover from Cons.prems obtain name init where "b = binding (name, init)"
    by (auto simp: is_binding_iff binding_def)
  ultimately have "b # bindings = map binding ((name, init) # bs)" by simp
  then show ?case by (rule exI [of _ "(name, init) # bs"])
qed

lemma first_malformed:
  "\<not> list_all is_binding bindings \<Longrightarrow>
   \<exists>bs bad rest. bindings = map binding bs @ bad # rest \<and> \<not> is_binding bad"
proof (induction bindings)
  case Nil
  then show ?case by simp
next
  case (Cons b bindings)
  show ?case
  proof (cases "is_binding b")
    case False
    then have "b # bindings = map binding [] @ b # bindings \<and> \<not> is_binding b" by simp
    then show ?thesis by (intro exI [of _ "[]"] exI [of _ b] exI [of _ bindings])
  next
    case True
    then obtain name init where b: "b = binding (name, init)"
      by (auto simp: is_binding_iff binding_def)
    from True Cons.prems have "\<not> list_all is_binding bindings" by simp
    then obtain bs bad rest where "bindings = map binding bs @ bad # rest" "\<not> is_binding bad"
      using Cons.IH by blast
    with b have "b # bindings = map binding ((name, init) # bs) @ bad # rest \<and> \<not> is_binding bad"
      by simp
    then show ?thesis by (intro exI [of _ "(name, init) # bs"] exI [of _ bad] exI [of _ rest])
  qed
qed

lemma ParseNode_let:
  assumes "keyword = LET \<or> keyword = LET_STAR \<or> keyword = LET_REC"
  shows "ParseNode (Tuple (Name keyword # rest)) = ParseLetFamily (Name keyword # rest)"
  using assms by (auto simp: ParseNode_Name_head keyword_defs)

lemma snd_ParseLetFamily_bindings:
  assumes "keyword = LET \<or> keyword = LET_STAR \<or> keyword = LET_REC"
  shows "snd (ParseLetFamily (Name keyword # Tuple bindings # b # body)) =
     (case snd (ParseLetFamily_loop bindings) of
        Inl e \<Rightarrow> Inl e
      | Inr (patterns, exprs) \<Rightarrow>
          (case snd (ParseList (b # body)) of
             Inl e \<Rightarrow> Inl e
           | Inr block \<Rightarrow> Inr (let_node keyword patterns exprs (Block block))))"
  using assms
  by (auto simp: ParseLetFamily.simps snd_bind_res let_node_def keyword_defs
      split: sum.splits prod.splits)

text \<open>
  C6. For a form headed by \<open>let\<close>, \<open>let*\<close> or \<open>letrec\<close>: with fewer than three elements
  it is the "no expression in body" syntax error; with three or more and a second element
  that is not a list it is the "expected bindings" syntax error; with a binding that is not
  a two-element list headed by an identifier the analysis fails, namely with the binding
  syntax error once the initialisers of the bindings before the first such binding have
  been analysed (a panic of one of those comes first). Otherwise all bindings are
  well-formed, and the result is the node of the keyword with the names in order, the
  analysed initialisers in the same order and the block of the analysed remaining
  elements; a panic of an initialiser or of a body expression is the result instead.
\<close>

theorem let_family:
  "keyword = LET \<or> keyword = LET_STAR \<or> keyword = LET_REC \<longrightarrow>
   (length rest < 2 \<longrightarrow>
      snd (ParseNode (Tuple (Name keyword # rest))) =
        Inl (SyntaxError ''%s: bad syntax, no expression in body'')) \<and>
   ((\<forall>bindings. second \<noteq> Tuple bindings) \<longrightarrow>
      snd (ParseNode (Tuple (Name keyword # second # b # body))) =
        Inl (SyntaxError ''%s: bad syntax, expected bindings, given: %s'')) \<and>
   (\<not> list_all is_binding bindings \<longrightarrow>
      (\<exists>e. snd (ParseNode (Tuple (Name keyword # Tuple bindings # b # body))) = Inl e)) \<and>
   (\<not> is_binding bad \<longrightarrow>
      snd (ParseNode (Tuple (Name keyword # Tuple (map binding bs @ bad # more) # b # body))) =
        (case snd (ParseList (map snd bs)) of Inl e \<Rightarrow> Inl e | Inr _ \<Rightarrow> Inl binding_error)) \<and>
   (list_all is_binding bindings \<longrightarrow>
      (\<exists>bs. bindings = map binding bs \<and>
         snd (ParseNode (Tuple (Name keyword # Tuple bindings # b # body))) =
           (case snd (ParseList (map snd bs)) of
              Inl e \<Rightarrow> Inl e
            | Inr exprs \<Rightarrow>
                (case snd (ParseList (b # body)) of
                   Inl e \<Rightarrow> Inl e
                 | Inr block \<Rightarrow> Inr (let_node keyword (map fst bs) exprs (Block block))))))"
proof
  assume kw: "keyword = LET \<or> keyword = LET_STAR \<or> keyword = LET_REC"
  note node = ParseNode_let [OF kw]
  note fam = snd_ParseLetFamily_bindings [OF kw]
  have short: "snd (ParseNode (Tuple (Name keyword # rest))) =
        Inl (SyntaxError ''%s: bad syntax, no expression in body'')" if "length rest < 2"
    using that by (simp add: node ParseLetFamily.simps)
  have nolist: "snd (ParseNode (Tuple (Name keyword # second # b # body))) =
        Inl (SyntaxError ''%s: bad syntax, expected bindings, given: %s'')"
    if "\<forall>bindings. second \<noteq> Tuple bindings"
    using that by (cases second) (simp_all add: node ParseLetFamily.simps)
  have malformed: "snd (ParseNode (Tuple (Name keyword # Tuple (map binding bs @ bad # more) # b # body))) =
        (case snd (ParseList (map snd bs)) of Inl e \<Rightarrow> Inl e | Inr _ \<Rightarrow> Inl binding_error)"
    if "\<not> is_binding bad" for bs bad more
    using that
    by (simp add: node fam snd_ParseLetFamily_loop_good ParseLetFamily_loop_malformed
        split: sum.splits)
  have fails: "\<exists>e. snd (ParseNode (Tuple (Name keyword # Tuple bindings # b # body))) = Inl e"
    if "\<not> list_all is_binding bindings"
  proof -
    from that obtain bs bad more where "bindings = map binding bs @ bad # more" "\<not> is_binding bad"
      using first_malformed by blast
    then show ?thesis
      using malformed [of bad bs more] by (auto split: sum.splits)
  qed
  have good: "\<exists>bs. bindings = map binding bs \<and>
         snd (ParseNode (Tuple (Name keyword # Tuple bindings # b # body))) =
           (case snd (ParseList (map snd bs)) of
              Inl e \<Rightarrow> Inl e
            | Inr exprs \<Rightarrow>
                (case snd (ParseList (b # body)) of
                   Inl e \<Rightarrow> Inl e
                 | Inr block \<Rightarrow> Inr (let_node keyword (map fst bs) exprs (Block block))))"
    if "list_all is_binding bindings"
  proof -
    from that obtain bs where bs: "bindings = map binding bs"
      using all_bindings by blast
    have "snd (ParseLetFamily_loop (map binding bs)) =
        (case snd (ParseList (map snd bs)) of
           Inl e \<Rightarrow> Inl e
         | Inr exprs \<Rightarrow> Inr (map fst bs, exprs))"
      using snd_ParseLetFamily_loop_good [of bs "[]"]
      by (simp add: ParseLetFamily_loop_Nil split: sum.splits)
    then have "snd (ParseNode (Tuple (Name keyword # Tuple (map binding bs) # b # body))) =
           (case snd (ParseList (map snd bs)) of
              Inl e \<Rightarrow> Inl e
            | Inr exprs \<Rightarrow>
                (case snd (ParseList (b # body)) of
                   Inl e \<Rightarrow> Inl e
                 | Inr block \<Rightarrow> Inr (let_node keyword (map fst bs) exprs (Block block))))"
      by (simp add: node fam split: sum.splits)
    with bs show ?thesis by blast
  qed
  from short nolist malformed fails good
  show "(length rest < 2 \<longrightarrow>
      snd (ParseNode (Tuple (Name keyword # rest))) =
        Inl (SyntaxError ''%s: bad syntax, no expression in body'')) \<and>
   ((\<forall>bindings. second \<noteq> Tuple bindings) \<longrightarrow>
      snd (ParseNode (Tuple (Name keyword # second # b # body))) =
        Inl (SyntaxError ''%s: bad syntax, expected bindings, given: %s'')) \<and>
   (\<not> list_all is_binding bindings \<longrightarrow>
      (\<exists>e. snd (ParseNode (Tuple (Name keyword # Tuple bindings # b # body))) = Inl e)) \<and>
   (\<not> is_binding bad \<longrightarrow>
      snd (ParseNode (Tuple (Name keyword # Tuple (map binding bs @ bad # more) # b # body))) =
        (case snd (ParseList (map snd bs)) of Inl e \<Rightarrow> Inl e | Inr _ \<Rightarrow> Inl binding_error)) \<and>
   (list_all is_binding bindings \<longrightarrow>
      (\<exists>bs. bindings = map binding bs \<and>
         snd (ParseNode (Tuple (Name keyword # Tuple bindings # b # body))) =
           (case snd (ParseList (map snd bs)) of
              Inl e \<Rightarrow> Inl e
            | Inr exprs \<Rightarrow>
                (case snd (ParseList (b # body)) of
                   Inl e \<Rightarrow> Inl e
                 | Inr block \<Rightarrow> Inr (let_node keyword (map fst bs) exprs (Block block))))))"
    by blast
qed


theorem let_family_witness:
  "snd (ParseNode (Tuple [Name LET])) =
     Inl (SyntaxError ''%s: bad syntax, no expression in body'') \<and>
   snd (ParseNode (Tuple [Name LET_STAR, Name ''x'', Name ''x''])) =
     Inl (SyntaxError ''%s: bad syntax, expected bindings, given: %s'') \<and>
   \<not> list_all is_binding [Name ''x'', Lit (Number 1)] \<and>
   snd (ParseNode (Tuple [Name LET, Tuple [Name ''x'', Lit (Number 1)], Name ''x''])) =
     Inl binding_error \<and>
   list_all is_binding [Tuple [Name ''x'', Lit (Number 1)]] \<and>
   snd (ParseNode (Tuple [Name LET, Tuple [Tuple [Name ''x'', Lit (Number 1)]], Name ''x''])) =
     Inr (Let_node [''x''] [Lit (Number 1)] (Block [Name ''x'']))"
proof -
  have atoms: "snd (ParseList [Name ''x'']) = Inr [Name ''x'']"
    "snd (ParseList [Lit (Number 1)]) = Inr [Lit (Number 1)]"
    by (simp_all add: snd_ParseList_Cons ParseList_Nil ParseNode_atom)
  have one: "map binding bs = [Tuple [Name ''x'', Lit (Number 1)]] \<longleftrightarrow> bs = [(''x'', Lit (Number 1))]"
    for bs
    by (cases bs) (auto simp: binding_def)
  have short: "snd (ParseNode (Tuple [Name LET])) =
     Inl (SyntaxError ''%s: bad syntax, no expression in body'')"
    using let_family [where keyword = LET and rest = "[]"] by simp
  have nolist: "snd (ParseNode (Tuple [Name LET_STAR, Name ''x'', Name ''x''])) =
     Inl (SyntaxError ''%s: bad syntax, expected bindings, given: %s'')"
    using let_family [where keyword = LET_STAR and second = "Name ''x''" and b = "Name ''x''"
        and body = "[]"]
    by simp
  have bad: "snd (ParseNode (Tuple [Name LET, Tuple [Name ''x'', Lit (Number 1)], Name ''x''])) =
     Inl binding_error"
    using let_family [where keyword = LET and bad = "Name ''x''" and bs = "[]"
        and more = "[Lit (Number 1)]" and b = "Name ''x''" and body = "[]"]
    by (simp add: ParseList_Nil)
  have wf: "list_all is_binding [Tuple [Name ''x'', Lit (Number 1)]]" by simp
  have lt: "LET = LET \<or> LET = LET_STAR \<or> LET = LET_REC" by simp
  note all = let_family [where keyword = LET and bindings = "[Tuple [Name ''x'', Lit (Number 1)]]"
        and b = "Name ''x''" and body = "[]" and rest = "[]" and second = "Name ''x''"
        and bad = "Name ''x''" and bs = "[]" and more = "[]", THEN mp, OF lt]
  note last = all [THEN conjunct2, THEN conjunct2, THEN conjunct2, THEN conjunct2, THEN mp, OF wf]
  from last
  obtain bs where bs: "[Tuple [Name ''x'', Lit (Number 1)]] = map binding bs"
    and r: "snd (ParseNode (Tuple [Name LET, Tuple [Tuple [Name ''x'', Lit (Number 1)]], Name ''x''])) =
           (case snd (ParseList (map snd bs)) of
              Inl e \<Rightarrow> Inl e
            | Inr exprs \<Rightarrow>
                (case snd (ParseList [Name ''x'']) of
                   Inl e \<Rightarrow> Inl e
                 | Inr block \<Rightarrow> Inr (let_node LET (map fst bs) exprs (Block block))))"
    by (elim exE conjE)
  from bs have "bs = [(''x'', Lit (Number 1))]"
    using one [of bs] by simp
  with r have good: "snd (ParseNode (Tuple [Name LET, Tuple [Tuple [Name ''x'', Lit (Number 1)]], Name ''x''])) =
     Inr (Let_node [''x''] [Lit (Number 1)] (Block [Name ''x'']))"
    by (simp add: atoms let_node_def)
  from short nolist bad good show ?thesis by simp
qed

subsection \<open>Stores into existing list nodes\<close>










lemmas Parse_rec_simps = ParseNode.simps ParseList.simps ParseBegin.simps ParseGo.simps
  ParseApply.simps ParseSelect.simps ParseSelect_loop.simps ParseLetFamily.simps
  ParseLetFamily_loop.simps ParseQuasiquote.simps ParseNestedQuasiquote.simps
  ParseNestedQuasiquote_loop.simps ParseUnquote.simps ParseUnquoteSplicing.simps
  ParseDefine.simps ParseCall.simps ParseLambda.simps ParseIf.simps ParseSet.simps
  ParseDelay.simps ParseForce.simps






end
